theory Spec2Isabelle
  imports Complex_Main
begin

section \<open>lv2file: applying an LV2 plugin to a sound file\<close>

text \<open>
  The development embeds the routing, control and block-processing code of
  \<^verbatim>\<open>src/lv2file.c\<close>.

  Conventions of the embedding.
  \<^item> A C \<^verbatim>\<open>float\<close> that the code only compares, copies, adds or divides is a \<open>real\<close>:
    rounding, infinities and overflow of IEEE arithmetic are outside the model. Where the
    code tests a float with \<^verbatim>\<open>isnan\<close> the value is a \<open>real option\<close> and \<open>None\<close> is NaN.
  \<^item> A C string is a \<open>string\<close>; a pointer into it is the suffix that starts there.
  \<^item> A variable-length array is a list of that length. An access outside the array is
    undefined behaviour in C; the model returns the error \<open>OutOfBounds\<close> for a write
    outside the array where a code path can reach one.
  \<^item> \<^verbatim>\<open>unsigned int\<close> counters are \<open>nat\<close>, \<^verbatim>\<open>int\<close> values are \<open>int\<close>; values
    that do not fit 32 bits are outside the model (\<^verbatim>\<open>atoi\<close> is undefined on them).
\<close>

subsection \<open>Starting value of a control port\<close>

text \<open>\<^verbatim>\<open>getstartingvalue\<close>: \<^verbatim>\<open>fmin\<close> and \<^verbatim>\<open>fmax\<close> of two numbers are \<open>min\<close> and \<open>max\<close>.\<close>

definition getstartingvalue :: "real option \<Rightarrow> real option \<Rightarrow> real option \<Rightarrow> real" where
  "getstartingvalue dflt minv maxv =
     (case dflt of
        Some d \<Rightarrow> d
      | None \<Rightarrow>
          (case minv of
             None \<Rightarrow> (case maxv of None \<Rightarrow> 0 | Some mx \<Rightarrow> min mx 0)
           | Some mn \<Rightarrow> (case maxv of None \<Rightarrow> max mn 0 | Some mx \<Rightarrow> (mn + mx) / 2)))"

subsection \<open>Buffers\<close>

text \<open>
  The three-dimensional arrays of the code (\<^verbatim>\<open>connections[numplugins][numin][numchannels]\<close>,
  \<^verbatim>\<open>pluginbuffers[numplugins][numin][blocksize]\<close>, \<^verbatim>\<open>outputbuffers[numplugins][numout][blocksize]\<close>)
  are lists of lists of lists; \<open>shape3 a n1 n2 n3\<close> says that \<open>a\<close> has these dimensions, and
  \<open>upd3 a p q i v\<close> is the assignment \<^verbatim>\<open>a[p][q][i] = v\<close>.
\<close>

definition shape3 :: "'a list list list \<Rightarrow> nat \<Rightarrow> nat \<Rightarrow> nat \<Rightarrow> bool" where
  "shape3 a n1 n2 n3 =
     (length a = n1 \<and> list_all (\<lambda>x. length x = n2 \<and> list_all (\<lambda>y. length y = n3) x) a)"

definition upd3 :: "'a list list list \<Rightarrow> nat \<Rightarrow> nat \<Rightarrow> nat \<Rightarrow> 'a \<Rightarrow> 'a list list list" where
  "upd3 a p q i v = a[p := (a ! p)[q := (a ! p ! q)[i := v]]]"

subsection \<open>Mixing file channels into plugin inputs\<close>

text \<open>\<^verbatim>\<open>popcount\<close>: the number of channels connected to one plugin input.\<close>

definition popcount :: "bool list \<Rightarrow> nat \<Rightarrow> nat" where
  "popcount connections numchannels =
     fold (\<lambda>i result. result + (if connections ! i then 1 else 0)) [0..<numchannels] 0"

text \<open>
  The body of the two inner statements of \<^verbatim>\<open>mix\<close> for one cell: the cell is set to 0, every
  connected channel is added to it in channel order while \<^verbatim>\<open>nummixed\<close> counts them, and the
  cell is divided by \<^verbatim>\<open>nummixed\<close> when that is not 0. The pair is (\<^verbatim>\<open>nummixed\<close>, cell).
\<close>

definition mix_cell :: "real list \<Rightarrow> nat \<Rightarrow> nat \<Rightarrow> bool list \<Rightarrow> real" where
  "mix_cell buffer numchannels i conn =
     (case fold (\<lambda>channel (nummixed, cell).
                   if conn ! channel
                   then (nummixed + 1, cell + buffer ! (i * numchannels + channel))
                   else (nummixed, cell))
                [0..<numchannels] (0::nat, 0::real) of
        (nummixed, cell) \<Rightarrow> if nummixed \<noteq> 0 then cell / real nummixed else cell)"

text \<open>\<^verbatim>\<open>mix\<close>: the loops over frames, instances and input ports, in the order of the code.\<close>

definition mix :: "real list \<Rightarrow> nat \<Rightarrow> nat \<Rightarrow> nat \<Rightarrow> nat \<Rightarrow> bool list list list \<Rightarrow> nat
                   \<Rightarrow> real list list list \<Rightarrow> real list list list" where
  "mix buffer framesread numchannels numplugins numin connections blocksize pluginbuffers =
     fold (\<lambda>i.
       fold (\<lambda>plugnum.
         fold (\<lambda>port pb.
                 upd3 pb plugnum port i (mix_cell buffer numchannels i (connections ! plugnum ! port)))
              [0..<numin])
         [0..<numplugins])
       [0..<framesread] pluginbuffers"

subsection \<open>Interleaving the plugin outputs\<close>

text \<open>\<^verbatim>\<open>interleaveoutput\<close>, with the index expression of the code.\<close>

definition interleaveoutput :: "nat \<Rightarrow> nat \<Rightarrow> nat \<Rightarrow> nat \<Rightarrow> real list list list \<Rightarrow> real list
                                \<Rightarrow> real list" where
  "interleaveoutput numread numplugins numout blocksize outputbuffers sndfilebuffer =
     fold (\<lambda>plugin.
       fold (\<lambda>port.
         fold (\<lambda>i sb.
                 sb[plugin * numout * blocksize + i * numout + port := outputbuffers ! plugin ! port ! i])
              [0..<numread])
         [0..<numout])
       [0..<numplugins] sndfilebuffer"

subsection \<open>Clipping\<close>

text \<open>
  \<^verbatim>\<open>clipOutput\<close>: two passes over the first \<open>sz\<close> samples (the parameter \<^verbatim>\<open>size\<close>); the result is the flag
  \<^verbatim>\<open>clipped\<close> and the buffer after the passes.
\<close>

definition clipOutput :: "nat \<Rightarrow> real list \<Rightarrow> bool \<times> real list" where
  "clipOutput sz buffer =
     fold (\<lambda>i (clipped, b). if b ! i < - 1 then (True, b[i := - 1]) else (clipped, b)) [0..<sz]
       (fold (\<lambda>i (clipped, b). if b ! i > 1 then (True, b[i := 1]) else (clipped, b)) [0..<sz]
          (False, buffer))"

text \<open>
  \<^verbatim>\<open>CHECK_CLIPPED\<close> as \<^verbatim>\<open>process_check_clipping\<close> expands it:
  \<^verbatim>\<open>if (!clipped && clipOutput (numread * numout, sndfilebuffer)) { clipped = true; printf (...); }\<close>.
  The \<^verbatim>\<open>&&\<close> does not evaluate \<^verbatim>\<open>clipOutput\<close> once \<^verbatim>\<open>clipped\<close> is set. The result is the new
  flag, the buffer, and whether the warning was printed.
\<close>

definition check_clipped :: "bool \<Rightarrow> nat \<Rightarrow> nat \<Rightarrow> real list \<Rightarrow> bool \<times> real list \<times> bool" where
  "check_clipped clipped numread numout sndfilebuffer =
     (if \<not> clipped
      then (case clipOutput (numread * numout) sndfilebuffer of
              (c, sb) \<Rightarrow> if c then (True, sb, True) else (clipped, sb, False))
      else (clipped, sndfilebuffer, False))"

subsection \<open>The block loop\<close>

text \<open>
  The plugin is an external collaborator. \<^verbatim>\<open>lilv_instance_run (instance, sample_count)\<close> is
  a function of the instance's state, the sample count, the input buffers and control values
  the instance is connected to, and the present content of its output buffers; it gives the
  new state of the instance and the new content of its output buffers.
\<close>

type_synonym 's lv2_run =
  "'s \<Rightarrow> nat \<Rightarrow> real list list \<Rightarrow> real list \<Rightarrow> real list list \<Rightarrow> 's \<times> real list list"

text \<open>
  The state of \<^verbatim>\<open>DEFINE_PROCESS\<close>: the arrays of the code, the flag \<^verbatim>\<open>clipped\<close>, the output
  file (the channel count it was opened with and the samples written to it so far), and two
  observations of what the code did: the number of clipping warnings printed, and for every
  iteration of the loop the number of frames read together with the calls of
  \<^verbatim>\<open>lilv_instance_run\<close> made in it, each as (instance index, sample count).
\<close>

record 's process_state =
  st_instances :: "'s list"
  st_pluginbuffers :: "real list list list"
  st_outputbuffers :: "real list list list"
  st_sndfilebuffer :: "real list"
  st_buffer :: "real list"
  st_clipped :: bool
  st_outchannels :: nat
  st_outsndfile :: "real list"
  st_warnings :: nat
  st_blocks :: "(nat \<times> (nat \<times> nat) list) list"

text \<open>
  \<^verbatim>\<open>sf_readf_float (file, buffer, frames)\<close> on a file of whole frames of \<open>channels\<close> samples, given
  by the samples not yet read: the number of frames read, the buffer, and the rest of the
  file.
\<close>

definition sf_readf_float :: "real list \<Rightarrow> nat \<Rightarrow> real list \<Rightarrow> nat \<Rightarrow> nat \<times> real list \<times> real list" where
  "sf_readf_float file channels buf frames =
     (let numread = min frames (length file div channels)
      in (numread,
          take (numread * channels) file @ drop (numread * channels) buf,
          drop (numread * channels) file))"

text \<open>The loop over the instances inside the block loop; the second component lists the calls.\<close>

definition run_instances :: "'s lv2_run \<Rightarrow> nat \<Rightarrow> nat \<Rightarrow> real list \<Rightarrow> 's process_state
                             \<Rightarrow> 's process_state \<times> (nat \<times> nat) list" where
  "run_instances run numplugins blocksize controlports st0 =
     fold (\<lambda>plugnum (st, calls).
             case run (st_instances st ! plugnum) blocksize (st_pluginbuffers st ! plugnum)
                      controlports (st_outputbuffers st ! plugnum) of
               (inst, out) \<Rightarrow>
                 (st\<lparr>st_instances := (st_instances st)[plugnum := inst],
                     st_outputbuffers := (st_outputbuffers st)[plugnum := out]\<rparr>,
                  calls @ [(plugnum, blocksize)]))
          [0..<numplugins] (st0, [])"

text \<open>
  The \<^verbatim>\<open>while\<close> loop of \<^verbatim>\<open>DEFINE_PROCESS\<close>. The flag \<open>check\<close> selects the expansion:
  \<^verbatim>\<open>process_check_clipping\<close> (\<open>True\<close>) or \<^verbatim>\<open>process_no_check_clipping\<close> (\<open>False\<close>), whose
  \<^verbatim>\<open>CHECK_CLIPPED\<close> is empty. \<^verbatim>\<open>sf_writef_float (outsndfile, sndfilebuffer, numread)\<close> appends
  \<open>numread\<close> frames of the output file's channel count.
\<close>

function process_loop :: "bool \<Rightarrow> 's lv2_run \<Rightarrow> nat \<Rightarrow> nat \<Rightarrow> nat \<Rightarrow> nat \<Rightarrow> nat \<Rightarrow> bool list list list
                          \<Rightarrow> real list \<Rightarrow> real list \<Rightarrow> 's process_state \<Rightarrow> 's process_state" where
  "process_loop check run blocksize numchannels numin numout numplugins connections controlports
                insndfile st =
     (case sf_readf_float insndfile numchannels (st_buffer st) blocksize of
        (numread, buf, rest) \<Rightarrow>
          if numread = 0 then st
          else
            (case run_instances run numplugins blocksize controlports
                    (st\<lparr>st_buffer := buf,
                        st_pluginbuffers := mix buf numread numchannels numplugins numin connections
                                              blocksize (st_pluginbuffers st)\<rparr>) of
               (st1, calls) \<Rightarrow>
                 (case (if check
                        then check_clipped (st_clipped st1) numread numout
                               (interleaveoutput numread numplugins numout blocksize
                                  (st_outputbuffers st1) (st_sndfilebuffer st1))
                        else (st_clipped st1,
                              interleaveoutput numread numplugins numout blocksize
                                (st_outputbuffers st1) (st_sndfilebuffer st1),
                              False)) of
                    (c, sb, warn) \<Rightarrow>
                      process_loop check run blocksize numchannels numin numout numplugins
                        connections controlports rest
                        (st1\<lparr>st_sndfilebuffer := sb,
                             st_clipped := c,
                             st_warnings := st_warnings st1 + (if warn then 1 else 0),
                             st_outsndfile := st_outsndfile st1 @ take (numread * st_outchannels st1) sb,
                             st_blocks := st_blocks st1 @ [(numread, calls)]\<rparr>))))"
  by pat_completeness auto
lemma sf_readf_float_rest:
  assumes "(numread, y) = sf_readf_float insndfile numchannels b blocksize"
    and "(buf, rest) = y" and "0 < numread"
  shows "length rest < length insndfile"
proof -
  from assms have n: "numread = min blocksize (length insndfile div numchannels)"
    and rest: "rest = drop (numread * numchannels) insndfile"
    by (auto simp: sf_readf_float_def Let_def)
  from n assms(3) have "0 < length insndfile div numchannels" by simp
  then have "0 < numchannels" "numchannels \<le> length insndfile"
    by (auto simp: div_greater_zero_iff intro: Nat.gr0I)
  with assms(3) have "0 < numread * numchannels" "0 < length insndfile"
    by (simp, linarith)
  then show "length rest < length insndfile"
    unfolding rest length_drop by (rule diff_less)
qed

termination process_loop
  apply (relation "measure (\<lambda>(check, run, blocksize, numchannels, numin, numout, numplugins,
                              connections, controlports, insndfile, st). length insndfile)")
   apply simp
  apply simp
  apply (erule sf_readf_float_rest, assumption+)
  done

declare process_loop.simps [simp del]

text \<open>
  \<^verbatim>\<open>DEFINE_PROCESS\<close>: the local arrays, \<^verbatim>\<open>INITIALIZE_CLIPPED\<close>, and the loop. The code does not
  initialise \<^verbatim>\<open>sndfilebuffer\<close> and \<^verbatim>\<open>buffer\<close>; they start filled with 0 here.
\<close>

definition process :: "bool \<Rightarrow> 's lv2_run \<Rightarrow> nat \<Rightarrow> nat \<Rightarrow> nat \<Rightarrow> nat \<Rightarrow> nat \<Rightarrow> bool list list list
                       \<Rightarrow> real list \<Rightarrow> real list \<Rightarrow> 's process_state \<Rightarrow> 's process_state" where
  "process check run blocksize numchannels numin numout numplugins connections controlports
           insndfile st =
     process_loop check run blocksize numchannels numin numout numplugins connections controlports
       insndfile
       (st\<lparr>st_sndfilebuffer := replicate (numplugins * numout * blocksize) 0,
           st_buffer := replicate (numchannels * blocksize) 0,
           st_clipped := False\<rparr>)"

text \<open>
  The state in which \<^verbatim>\<open>main\<close> calls the block loop: \<^verbatim>\<open>pluginbuffers\<close> and \<^verbatim>\<open>outputbuffers\<close>
  are cleared by \<^verbatim>\<open>memset\<close>, the output file was opened with \<^verbatim>\<open>formatinfo.channels = numout\<close>
  and is empty.
\<close>

definition init_state :: "'s list \<Rightarrow> nat \<Rightarrow> nat \<Rightarrow> nat \<Rightarrow> nat \<Rightarrow> 's process_state" where
  "init_state insts numplugins numin numout blocksize =
     \<lparr>st_instances = insts,
      st_pluginbuffers = replicate numplugins (replicate numin (replicate blocksize 0)),
      st_outputbuffers = replicate numplugins (replicate numout (replicate blocksize 0)),
      st_sndfilebuffer = [],
      st_buffer = [],
      st_clipped = False,
      st_outchannels = numout,
      st_outsndfile = [],
      st_warnings = 0,
      st_blocks = []\<rparr>"

text \<open>
  A plugin to run the code on: one audio input, one audio output, no state; every output
  sample is 1.5 times the input sample.
\<close>

definition amp_run :: "unit lv2_run" where
  "amp_run s sample_count ins controls outs = (s, map (map (\<lambda>x. 3 / 2 * x)) ins)"

subsection \<open>Fatal errors, and loops that can leave by one\<close>

text \<open>
  Every \<^verbatim>\<open>goto cleanup_...\<close> of \<^verbatim>\<open>main\<close> after an error message is a value of \<open>error\<close>. Two more
  values stand for undefined behaviour of the C code: a write outside an array and the
  dereference of a null pointer.
\<close>

datatype error =
    PortsProblem
  | ConnectionSyntax
  | InvalidInstance
  | NoSuchChannel
  | NotEnoughChannels
  | InstantiateFailed
  | ParameterSyntax
  | OutOfBounds
  | NullDereference

text \<open>A loop over \<open>xs\<close> whose body can fail: the first failure ends the loop.\<close>

fun for_each :: "('a \<Rightarrow> 's \<Rightarrow> error + 's) \<Rightarrow> 'a list \<Rightarrow> 's \<Rightarrow> error + 's" where
  "for_each f [] s = Inr s"
| "for_each f (x # xs) s = (case f x s of Inl e \<Rightarrow> Inl e | Inr s' \<Rightarrow> for_each f xs s')"

subsection \<open>C strings\<close>

text \<open>
  \<^verbatim>\<open>strchr (s, c)\<close> is \<open>None\<close> for the null pointer and otherwise the suffix of \<open>s\<close> that starts
  at the first \<open>c\<close>.
\<close>

definition strchr :: "string \<Rightarrow> char \<Rightarrow> string option" where
  "strchr s c = (if c \<in> set s then Some (dropWhile (\<lambda>x. x \<noteq> c) s) else None)"

text \<open>The text of \<open>s\<close> before the first \<open>c\<close>: what \<open>s\<close> points to after \<^verbatim>\<open>*strchr (s, c) = 0\<close>.\<close>

definition before :: "string \<Rightarrow> char \<Rightarrow> string" where
  "before s c = takeWhile (\<lambda>x. x \<noteq> c) s"

text \<open>
  \<^verbatim>\<open>atoi\<close> of the C library: white space, an optional sign, decimal digits. The result is an
  unbounded \<open>int\<close>; on a number outside the range of \<^verbatim>\<open>int\<close> the C function is undefined.
\<close>

definition isspace :: "char \<Rightarrow> bool" where
  "isspace c = (c = CHR '' '' \<or> (9 \<le> (of_char c :: nat) \<and> (of_char c :: nat) \<le> 13))"

definition isdigit :: "char \<Rightarrow> bool" where
  "isdigit c = (48 \<le> (of_char c :: nat) \<and> (of_char c :: nat) \<le> 57)"

fun digits :: "string \<Rightarrow> int \<Rightarrow> int" where
  "digits [] acc = acc"
| "digits (c # cs) acc =
     (if isdigit c then digits cs (10 * acc + (int (of_char c) - 48)) else acc)"

definition atoi :: "string \<Rightarrow> int" where
  "atoi s =
     (case dropWhile isspace s of
        [] \<Rightarrow> 0
      | c # cs \<Rightarrow>
          if c = CHR ''-'' then - digits cs 0
          else if c = CHR ''+'' then digits cs 0
          else digits (c # cs) 0)"

text \<open>
  The loops of \<^verbatim>\<open>main\<close> over a comma-separated argument have the form
  \<^verbatim>\<open>while (*s) { ...; if (nextcomma) s = nextcomma + 1; else break; }\<close> with
  \<^verbatim>\<open>nextcomma = strchr (s, ',')\<close>. \<open>entry_starts s\<close> lists the values of the pointer \<open>s\<close> at
  which the body runs when no iteration fails.
\<close>

function entry_starts :: "string \<Rightarrow> string list" where
  "entry_starts s =
     (if s = [] then []
      else s # (case strchr s (CHR '','') of
                  None \<Rightarrow> []
                | Some nextcomma \<Rightarrow> entry_starts (tl nextcomma)))"
  by pat_completeness auto
lemma strchr_tl_shorter:
  assumes "strchr s c = Some t"
  shows "length (tl t) < length s"
proof -
  from assms have t: "t = dropWhile (\<lambda>x. x \<noteq> c) s" and "c \<in> set s"
    by (auto simp: strchr_def split: if_splits)
  then have "t \<noteq> []" by auto
  then have "length (tl t) < length t" by (cases t) auto
  also have "length t \<le> length s" unfolding t by (rule length_dropWhile_le)
  finally show ?thesis .
qed

termination entry_starts
  by (relation "measure length") (auto dest: strchr_tl_shorter)

declare entry_starts.simps [simp del]

subsection \<open>The ports of the plugin\<close>

text \<open>
  What \<^verbatim>\<open>main\<close> asks lilv about a port: its symbol, the classes \<^verbatim>\<open>lilv_port_is_a\<close> is asked for,
  the two properties \<^verbatim>\<open>lilv_port_has_property\<close> is asked for, and the default, minimum and
  maximum that \<^verbatim>\<open>lilv_plugin_get_port_ranges_float\<close> reports (NaN where the plugin gives none).
\<close>

record port =
  p_symbol :: string
  p_audio :: bool
  p_control :: bool
  p_atom :: bool
  p_input :: bool
  p_output :: bool
  p_optional :: bool
  p_freewheel :: bool
  p_default :: "real option"
  p_min :: "real option"
  p_max :: "real option"

text \<open>The variables of the classification loop of \<^verbatim>\<open>main\<close>; \<^verbatim>\<open>numin\<close> is \<open>length inindices\<close>, etc.\<close>

record classification =
  inindices :: "nat list"
  outindices :: "nat list"
  controlindices :: "nat list"
  controloutindices :: "nat list"
  portsproblem :: bool
  fwheelportidx :: int

definition classify_port :: "port list \<Rightarrow> nat \<Rightarrow> classification \<Rightarrow> classification" where
  "classify_port ports i cl =
     (let porti = ports ! i in
      if p_audio porti then
        (if p_input porti then cl\<lparr>inindices := inindices cl @ [i]\<rparr>
         else if p_output porti then cl\<lparr>outindices := outindices cl @ [i]\<rparr>
         else cl\<lparr>portsproblem := True\<rparr>)
      else if p_control porti then
        (if p_input porti then
           (if p_freewheel porti
            then cl\<lparr>controlindices := controlindices cl @ [i], fwheelportidx := int i\<rparr>
            else cl\<lparr>controlindices := controlindices cl @ [i]\<rparr>)
         else if p_output porti then cl\<lparr>controloutindices := controloutindices cl @ [i]\<rparr>
         else cl\<lparr>portsproblem := True\<rparr>)
      else if p_atom porti then cl
      else if \<not> p_optional porti then cl\<lparr>portsproblem := True\<rparr>
      else cl)"

definition classify :: "port list \<Rightarrow> classification" where
  "classify ports =
     fold (classify_port ports) [0..<length ports]
       \<lparr>inindices = [], outindices = [], controlindices = [], controloutindices = [],
        portsproblem = False, fwheelportidx = - 1\<rparr>"

text \<open>
  The search for a port by symbol, as in
  \<^verbatim>\<open>for (port = 0; port < n; port++) if (!strcmp (symbol (indices[port]), s)) { ...; break; }\<close>:
  the first ordinal whose port has the symbol.
\<close>

definition find_port :: "port list \<Rightarrow> nat list \<Rightarrow> string \<Rightarrow> nat option" where
  "find_port ports indices s =
     List.find (\<lambda>port. p_symbol (ports ! (indices ! port)) = s) [0..<length indices]"

subsection \<open>The connection matrix\<close>

text \<open>
  The assignment \<^verbatim>\<open>connections[p][port][channel] = true\<close>. The instance index is an
  \<open>int\<close>: the code computes it as \<^verbatim>\<open>atoi (...) - 1\<close> and stores it in an \<^verbatim>\<open>unsigned\<close>, so a
  negative value becomes an index beyond every array.
\<close>

definition set_connection :: "bool list list list \<Rightarrow> int \<Rightarrow> nat \<Rightarrow> nat \<Rightarrow> error + bool list list list" where
  "set_connection connections p port channel =
     (if 0 \<le> p \<and> nat p < length connections \<and> port < length (connections ! nat p)
         \<and> channel < length (connections ! nat p ! port)
      then Inr (upd3 connections (nat p) port channel True)
      else Inl OutOfBounds)"

text \<open>
  The body of the first loop over a \<^verbatim>\<open>--connect\<close> argument, which counts the instances.
  \<^verbatim>\<open>nextcolon\<close> is looked for before the next comma; after \<^verbatim>\<open>nextcolon++\<close> it is the rest of the
  whole argument, and \<^verbatim>\<open>strchr (nextcolon, '.')\<close> searches all of it.
\<close>

definition count_instance :: "string \<Rightarrow> nat \<Rightarrow> error + nat" where
  "count_instance connectionlist numplugins =
     (case strchr (before connectionlist (CHR '','')) (CHR '':'') of
        None \<Rightarrow> Inl ConnectionSyntax
      | Some _ \<Rightarrow>
          (let nextcolon = tl (dropWhile (\<lambda>x. x \<noteq> CHR '':'') connectionlist)
           in case strchr nextcolon (CHR ''.'') of
                None \<Rightarrow> Inr (if numplugins \<le> 0 then 1 else numplugins)
              | Some nextperiod \<Rightarrow>
                  (let pluginstance = atoi (before nextcolon (CHR ''.'')) - 1
                   in if pluginstance < 0 then Inl InvalidInstance
                      else Inr (if numplugins \<le> nat pluginstance then nat pluginstance + 1
                                else numplugins))))"

text \<open>
  The body of the second loop, which fills the matrix. The comma, the colon and the period
  are overwritten with 0 in turn, so after \<^verbatim>\<open>*nextperiod = 0\<close> the pointer \<^verbatim>\<open>nextperiod\<close>, which
  the symbols are compared with, is the empty string, and \<^verbatim>\<open>atoi (nextcolon + 1)\<close> reads the
  instance number from its second character on (from behind the period when there is no
  first one). The state is the matrix and the symbols printed in warnings.
\<close>

definition connect_entry :: "port list \<Rightarrow> nat list \<Rightarrow> nat \<Rightarrow> string
                             \<Rightarrow> bool list list list \<times> string list
                             \<Rightarrow> error + bool list list list \<times> string list" where
  "connect_entry ports inidx numchannels connectionlist cw =
     (case cw of (connections, warnings) \<Rightarrow>
      let channel = atoi connectionlist - 1 in
      if channel < 0 \<or> numchannels \<le> nat channel then Inl NoSuchChannel
      else
        (case strchr (before connectionlist (CHR '','')) (CHR '':'') of
           None \<Rightarrow> Inl NullDereference
         | Some colon \<Rightarrow>
             (let nextcolon = tl colon;
                  (pluginstance, nextperiod, shown) =
                    (case strchr nextcolon (CHR ''.'') of
                       None \<Rightarrow> (0, nextcolon, nextcolon)
                     | Some period \<Rightarrow>
                         (atoi (if before nextcolon (CHR ''.'') = [] then tl period
                                else tl (before nextcolon (CHR ''.''))) - 1,
                          [],
                          before nextcolon (CHR ''.'')))
              in case find_port ports inidx nextperiod of
                   None \<Rightarrow> Inr (connections, warnings @ [shown])
                 | Some port \<Rightarrow>
                     (case set_connection connections pluginstance port (nat channel) of
                        Inl e \<Rightarrow> Inl e
                      | Inr c \<Rightarrow> Inr (c, warnings)))))"

text \<open>The default connections, made when there is no \<^verbatim>\<open>--connect\<close> argument.\<close>

definition default_connections :: "nat \<Rightarrow> nat \<Rightarrow> bool \<Rightarrow> bool list list list
                                   \<Rightarrow> error + bool list list list" where
  "default_connections numin numchannels mixdown connections =
     (if numin = numchannels
      then for_each (\<lambda>i c. set_connection c 0 i i) [0..<numin] connections
      else if numin = 1
      then (if mixdown
            then for_each (\<lambda>i c. set_connection c 0 0 i) [0..<numin] connections
            else for_each (\<lambda>i c. set_connection c (int i) 0 i) [0..<numchannels] connections)
      else if numchannels > numin
      then for_each (\<lambda>i c. set_connection c 0 i i) [0..<numin] connections
      else Inl NotEnoughChannels)"

text \<open>
  The block of \<^verbatim>\<open>main\<close> from \<^verbatim>\<open>unsigned int numplugins = 1;\<close> to the end of the default
  connections: the number of instances, the matrix, and the warnings printed.
  \<open>connectargs\<close> is the list \<^verbatim>\<open>connectargs->sval\<close>, of length \<^verbatim>\<open>connectargs->count\<close>.
\<close>

definition build_connections :: "port list \<Rightarrow> nat list \<Rightarrow> nat \<Rightarrow> bool \<Rightarrow> string list
                                 \<Rightarrow> error + nat \<times> bool list list list \<times> string list" where
  "build_connections ports inidx numchannels mixdown connectargs =
     (let numin = length inidx in
      case (if connectargs \<noteq> []
            then for_each (\<lambda>connectionlist. for_each count_instance (entry_starts connectionlist))
                   connectargs 1
            else Inr (if numin = 1 \<and> \<not> mixdown then numchannels else 1)) of
        Inl e \<Rightarrow> Inl e
      | Inr numplugins \<Rightarrow>
          (let connections = replicate numplugins (replicate numin (replicate numchannels False))
           in if connectargs \<noteq> []
              then (case for_each (\<lambda>connectionlist.
                                     for_each (connect_entry ports inidx numchannels)
                                       (entry_starts connectionlist))
                           connectargs (connections, []) of
                      Inl e \<Rightarrow> Inl e
                    | Inr (c, warnings) \<Rightarrow> Inr (numplugins, c, warnings))
              else (case default_connections numin numchannels mixdown connections of
                      Inl e \<Rightarrow> Inl e
                    | Inr c \<Rightarrow> Inr (numplugins, c, []))))"

subsection \<open>Control values\<close>

text \<open>
  A value of a preset as \<^verbatim>\<open>lilv_state_restore\<close> hands it to \<^verbatim>\<open>set_port_value\<close>; \<open>pv_float\<close> says
  that its type is 0 or the URID of \<^verbatim>\<open>atom#Float\<close>. \<^verbatim>\<open>set_port_value\<close> writes into the array
  \<^verbatim>\<open>defaultvalues\<close>, which is indexed by port index.
\<close>

record preset_value =
  pv_symbol :: string
  pv_float :: bool
  pv_value :: "real option"

definition set_port_value :: "port list \<Rightarrow> preset_value \<Rightarrow> real option list \<Rightarrow> real option list" where
  "set_port_value ports pv params =
     (if \<not> pv_float pv then params
      else (case List.find (\<lambda>port. p_symbol (ports ! port) = pv_symbol pv) [0..<length ports] of
              None \<Rightarrow> params
            | Some port \<Rightarrow> params[port := pv_value pv]))"

text \<open>
  The loop that creates the instances. \<open>instantiate i\<close> is the result of
  \<^verbatim>\<open>lilv_plugin_instantiate\<close> for instance \<open>i\<close> (\<open>None\<close> when it fails); \<open>state\<close> is the preset
  found, and \<^verbatim>\<open>lilv_state_restore\<close> calls \<^verbatim>\<open>set_port_value\<close> on each of its values.
\<close>

definition instantiate_all :: "(nat \<Rightarrow> 's option) \<Rightarrow> port list \<Rightarrow> preset_value list option \<Rightarrow> nat
                               \<Rightarrow> real option list \<Rightarrow> error + 's list \<times> real option list" where
  "instantiate_all instantiate ports state numplugins defaultvalues =
     for_each (\<lambda>i (insts, dv).
                 case instantiate i of
                   None \<Rightarrow> Inl InstantiateFailed
                 | Some inst \<Rightarrow>
                     Inr (insts @ [inst],
                          case state of None \<Rightarrow> dv | Some vs \<Rightarrow> fold (set_port_value ports) vs dv))
       [0..<numplugins] ([], defaultvalues)"

text \<open>
  The array \<^verbatim>\<open>controlports\<close> before the \<^verbatim>\<open>--parameters\<close> arguments are read: the starting
  values, then \<^verbatim>\<open>if (fwheelportidx >= 0) controlports[fwheelportidx] = 1\<close>, where
  \<^verbatim>\<open>fwheelportidx\<close> is the port index that the classification stored.
\<close>

definition starting_controls :: "classification \<Rightarrow> real option list \<Rightarrow> real option list
                                 \<Rightarrow> real option list \<Rightarrow> error + real list" where
  "starting_controls cl defaultvalues minvalues maxvalues =
     (let controlports =
            map (\<lambda>portindex. getstartingvalue (defaultvalues ! portindex) (minvalues ! portindex)
                               (maxvalues ! portindex))
                (controlindices cl)
      in if 0 \<le> fwheelportidx cl
         then (if nat (fwheelportidx cl) < length controlports
               then Inr (controlports[nat (fwheelportidx cl) := 1])
               else Inl OutOfBounds)
         else Inr controlports)"

text \<open>
  The body of the loop over a \<^verbatim>\<open>--parameters\<close> argument. \<open>strtof\<close> is the function of the C
  library. The state is \<^verbatim>\<open>controlports\<close> and the symbols printed in warnings.
\<close>

definition set_parameter :: "(string \<Rightarrow> real) \<Rightarrow> port list \<Rightarrow> nat list \<Rightarrow> string
                             \<Rightarrow> real list \<times> string list \<Rightarrow> error + real list \<times> string list" where
  "set_parameter strtof ports ctlidx parameters cw =
     (case cw of (controlports, warnings) \<Rightarrow>
      case strchr (before parameters (CHR '','')) (CHR '':'') of
        None \<Rightarrow> Inl ParameterSyntax
      | Some colon \<Rightarrow>
          (let val = strtof (tl colon);
               name = before parameters (CHR '':'')
           in case find_port ports ctlidx name of
                None \<Rightarrow> Inr (controlports, warnings @ [name])
              | Some port \<Rightarrow> Inr (controlports[port := val], warnings)))"

definition set_parameters :: "(string \<Rightarrow> real) \<Rightarrow> port list \<Rightarrow> nat list \<Rightarrow> string list
                              \<Rightarrow> real list \<times> string list \<Rightarrow> error + real list \<times> string list" where
  "set_parameters strtof ports ctlidx controls cw =
     for_each (\<lambda>parameters. for_each (set_parameter strtof ports ctlidx) (entry_starts parameters))
       controls cw"

subsection \<open>The run\<close>

text \<open>
  What \<^verbatim>\<open>main\<close> works on once the command line is parsed, the plugin is found and the input
  file is open: the ports of the plugin and its code, the outcome of instantiation, the
  preset found (\<^verbatim>\<open>state\<close>), the channel count and the samples of the input file, the block
  size, the \<^verbatim>\<open>--connect\<close> and \<^verbatim>\<open>--parameters\<close> arguments, the flags \<^verbatim>\<open>--mono\<close> and
  \<^verbatim>\<open>--ignore-clipping\<close>, and \<^verbatim>\<open>strtof\<close>.
\<close>

record 's config =
  cf_ports :: "port list"
  cf_run :: "'s lv2_run"
  cf_instantiate :: "nat \<Rightarrow> 's option"
  cf_state :: "preset_value list option"
  cf_numchannels :: nat
  cf_insndfile :: "real list"
  cf_blocksize :: nat
  cf_connectargs :: "string list"
  cf_controls :: "string list"
  cf_mixdown :: bool
  cf_ignore_clipping :: bool
  cf_strtof :: "string \<Rightarrow> real"

text \<open>
  What a run that reaches the block loop leaves behind: the number of instances, the matrix,
  the control values the instances are connected to, the symbols of the warnings about
  unknown ports (connections, then parameters), and the state after the block loop.
\<close>

record 's result =
  r_numplugins :: nat
  r_connections :: "bool list list list"
  r_controlports :: "real list"
  r_connect_warnings :: "string list"
  r_parameter_warnings :: "string list"
  r_state :: "'s process_state"

text \<open>
  \<^verbatim>\<open>main\<close> from the classification of the ports up to \<^verbatim>\<open>if (controls->count)\<close>: the number of
  instances, the matrix, the warnings about connections, the instances, and \<^verbatim>\<open>controlports\<close>
  as the \<^verbatim>\<open>--parameters\<close> arguments find it. Every \<open>Inl\<close> is a \<^verbatim>\<open>goto cleanup_...\<close>.
\<close>

definition main_setup :: "'s config
    \<Rightarrow> error + nat \<times> bool list list list \<times> string list \<times> 's list \<times> real list" where
  "main_setup cfg =
     (let ports = cf_ports cfg;
          cl = classify ports
      in if portsproblem cl then Inl PortsProblem
         else
          (case build_connections ports (inindices cl) (cf_numchannels cfg) (cf_mixdown cfg)
                  (cf_connectargs cfg) of
             Inl e \<Rightarrow> Inl e
           | Inr (numplugins, connections, cwarnings) \<Rightarrow>
              (case instantiate_all (cf_instantiate cfg) ports (cf_state cfg) numplugins
                      (map p_default ports) of
                 Inl e \<Rightarrow> Inl e
               | Inr (instances, defaultvalues) \<Rightarrow>
                  (case starting_controls cl defaultvalues (map p_min ports) (map p_max ports) of
                     Inl e \<Rightarrow> Inl e
                   | Inr controlports0 \<Rightarrow>
                       Inr (numplugins, connections, cwarnings, instances, controlports0)))))"

text \<open>
  The rest of \<^verbatim>\<open>main\<close>: the \<^verbatim>\<open>--parameters\<close> arguments and the block loop, which is entered
  only when no \<^verbatim>\<open>goto\<close> was taken.
\<close>

definition main_core :: "'s config \<Rightarrow> error + 's result" where
  "main_core cfg =
     (case main_setup cfg of
        Inl e \<Rightarrow> Inl e
      | Inr (numplugins, connections, cwarnings, instances, controlports0) \<Rightarrow>
          (let cl = classify (cf_ports cfg);
               numin = length (inindices cl);
               numout = length (outindices cl)
           in case set_parameters (cf_strtof cfg) (cf_ports cfg) (controlindices cl)
                     (cf_controls cfg) (controlports0, []) of
                Inl e \<Rightarrow> Inl e
              | Inr (controlports, pwarnings) \<Rightarrow>
                  Inr \<lparr>r_numplugins = numplugins,
                       r_connections = connections,
                       r_controlports = controlports,
                       r_connect_warnings = cwarnings,
                       r_parameter_warnings = pwarnings,
                       r_state =
                         process (\<not> cf_ignore_clipping cfg) (cf_run cfg) (cf_blocksize cfg)
                           (cf_numchannels cfg) numin numout numplugins connections controlports
                           (cf_insndfile cfg)
                           (init_state instances numplugins numin numout (cf_blocksize cfg))\<rparr>))"

text \<open>
  Words for the \<^verbatim>\<open>--parameters\<close> arguments: the entries the loops visit (each given by the
  pointer at which the body starts), the port name and the value text of an entry, whether
  an entry has its colon, and the last entry whose name selects control ordinal \<open>k\<close>.
\<close>

definition parameter_entries :: "string list \<Rightarrow> string list" where
  "parameter_entries controls = concat (map entry_starts controls)"

definition entry_name :: "string \<Rightarrow> string" where
  "entry_name t = before t (CHR '':'')"

definition entry_value :: "string \<Rightarrow> string" where
  "entry_value t = tl (dropWhile (\<lambda>x. x \<noteq> CHR '':'') (before t (CHR '','')))"

definition entry_wellformed :: "string \<Rightarrow> bool" where
  "entry_wellformed t = (CHR '':'' \<in> set (before t (CHR '','')))"

definition last_override :: "port list \<Rightarrow> nat list \<Rightarrow> string list \<Rightarrow> nat \<Rightarrow> string option" where
  "last_override ports ctlidx ts k =
     List.find (\<lambda>t. find_port ports ctlidx (entry_name t) = Some k) (rev ts)"

text \<open>Ports and a number reader to run the code on.\<close>

definition audio_in :: "string \<Rightarrow> port" where
  "audio_in s = \<lparr>p_symbol = s, p_audio = True, p_control = False, p_atom = False,
                  p_input = True, p_output = False, p_optional = False, p_freewheel = False,
                  p_default = None, p_min = None, p_max = None\<rparr>"

definition audio_out :: "string \<Rightarrow> port" where
  "audio_out s = \<lparr>p_symbol = s, p_audio = True, p_control = False, p_atom = False,
                   p_input = False, p_output = True, p_optional = False, p_freewheel = False,
                   p_default = None, p_min = None, p_max = None\<rparr>"

definition control_in :: "string \<Rightarrow> bool \<Rightarrow> real option \<Rightarrow> port" where
  "control_in s fw d = \<lparr>p_symbol = s, p_audio = False, p_control = True, p_atom = False,
                        p_input = True, p_output = False, p_optional = False, p_freewheel = fw,
                        p_default = d, p_min = None, p_max = None\<rparr>"

text \<open>\<^verbatim>\<open>strtof\<close> on a string that begins with decimal digits and has no fraction or exponent.\<close>

definition strtof_digits :: "string \<Rightarrow> real" where
  "strtof_digits s = real_of_int (digits s 0)"

text \<open>
  A plugin with a freewheel control input \<open>fw\<close> at port index 0, a control input \<open>gain\<close>, an
  audio input and an audio output, run on a one-channel file with a preset that sets \<open>fw\<close>
  to 0; and the same ports with the audio input first, so that port index and control
  ordinal of \<open>fw\<close> differ.
\<close>

definition fw_plugin :: "port list" where
  "fw_plugin = [control_in ''fw'' True (Some 0), control_in ''gain'' False (Some (1 / 2)),
                audio_in ''in'', audio_out ''out'']"

definition fw_config :: "string list \<Rightarrow> unit config" where
  "fw_config controls =
     \<lparr>cf_ports = fw_plugin, cf_run = amp_run, cf_instantiate = (\<lambda>i. Some ()),
      cf_state = Some [\<lparr>pv_symbol = ''fw'', pv_float = True, pv_value = Some 0\<rparr>],
      cf_numchannels = 1, cf_insndfile = [1 / 2], cf_blocksize = 4, cf_connectargs = [],
      cf_controls = controls, cf_mixdown = False, cf_ignore_clipping = False,
      cf_strtof = strtof_digits\<rparr>"

definition fw_plugin_audio_first :: "port list" where
  "fw_plugin_audio_first =
     [audio_in ''in'', control_in ''fw'' True (Some 0), control_in ''gain'' False (Some (1 / 2)),
      audio_out ''out'']"

text \<open>
  The plugin \<open>amp_run\<close> with its two ports on a two-channel file of three frames, block size
  2, no arguments: one instance per channel.
\<close>

definition stereo_config :: "unit config" where
  "stereo_config =
     \<lparr>cf_ports = [audio_in ''in'', audio_out ''out''], cf_run = amp_run,
      cf_instantiate = (\<lambda>i. Some ()), cf_state = None,
      cf_numchannels = 2, cf_insndfile = [1 / 2, 1 / 4, 1 / 2, 1 / 4, 1 / 2, 1 / 4],
      cf_blocksize = 2, cf_connectargs = [], cf_controls = [], cf_mixdown = False,
      cf_ignore_clipping = False, cf_strtof = strtof_digits\<rparr>"

section \<open>Theorems\<close>

subsection \<open>Array assignments\<close>

lemma shape3_nth:
  "shape3 a n1 n2 n3 \<longleftrightarrow>
     length a = n1 \<and> (\<forall>p<n1. length (a ! p) = n2 \<and> (\<forall>q<n2. length (a ! p ! q) = n3))"
  by (auto simp: shape3_def list_all_length)

lemma upd3_shape: "shape3 a n1 n2 n3 \<Longrightarrow> shape3 (upd3 a p q i v) n1 n2 n3"
  by (cases "p < length a"; cases "q < length (a ! p)")
     (auto simp: shape3_nth upd3_def nth_list_update)

lemma upd3_nth:
  "shape3 a n1 n2 n3 \<Longrightarrow> p < n1 \<Longrightarrow> q < n2 \<Longrightarrow> i < n3 \<Longrightarrow>
   upd3 a p q i v ! p' ! q' ! i' = (if p' = p \<and> q' = q \<and> i' = i then v else a ! p' ! q' ! i')"
  by (auto simp: shape3_nth upd3_def nth_list_update)

subsection \<open>The loops of \<open>mix\<close>\<close>

text \<open>Innermost loop: the ports of one instance at one frame.\<close>

lemma mix_port_loop:
  "shape3 a n1 n2 n3 \<Longrightarrow> p < n1 \<Longrightarrow> i < n3 \<Longrightarrow> \<forall>q\<in>set qs. q < n2 \<Longrightarrow>
   shape3 (fold (\<lambda>port pb. upd3 pb p port i (g port)) qs a) n1 n2 n3 \<and>
   fold (\<lambda>port pb. upd3 pb p port i (g port)) qs a ! p' ! q' ! i'
     = (if p' = p \<and> i' = i \<and> q' \<in> set qs then g q' else a ! p' ! q' ! i')"
proof (induction qs arbitrary: a)
  case Nil
  then show ?case by simp
next
  case (Cons x xs)
  have s: "shape3 (upd3 a p x i (g x)) n1 n2 n3"
    using Cons.prems(1) by (rule upd3_shape)
  show ?case
    using Cons.IH[OF s] Cons.prems
    by (auto simp: upd3_nth[where ?n1.0=n1 and ?n2.0=n2 and ?n3.0=n3])
qed

text \<open>Middle loop: the instances at one frame.\<close>

lemma mix_plugin_loop:
  "shape3 a n1 n2 n3 \<Longrightarrow> i < n3 \<Longrightarrow> \<forall>p\<in>set ps. p < n1 \<Longrightarrow>
   shape3 (fold (\<lambda>plugnum. fold (\<lambda>port pb. upd3 pb plugnum port i (g plugnum port)) [0..<n2])
             ps a) n1 n2 n3 \<and>
   (q' < n2 \<longrightarrow>
      fold (\<lambda>plugnum. fold (\<lambda>port pb. upd3 pb plugnum port i (g plugnum port)) [0..<n2])
        ps a ! p' ! q' ! i'
      = (if p' \<in> set ps \<and> i' = i then g p' q' else a ! p' ! q' ! i'))"
proof (induction ps arbitrary: a)
  case Nil
  then show ?case by simp
next
  case (Cons x xs)
  let ?a = "fold (\<lambda>port pb. upd3 pb x port i (g x port)) [0..<n2] a"
  have inner: "shape3 ?a n1 n2 n3 \<and>
      ?a ! p' ! q' ! i' = (if p' = x \<and> i' = i \<and> q' \<in> set [0..<n2] then g x q' else a ! p' ! q' ! i')"
    using mix_port_loop[of a n1 n2 n3 x i "[0..<n2]" "g x" p' q' i'] Cons.prems by simp
  show ?case
    using Cons.IH[of ?a] inner Cons.prems by auto
qed

text \<open>Outer loop: the frames.\<close>

lemma mix_frame_loop:
  "shape3 a n1 n2 n3 \<Longrightarrow> \<forall>i\<in>set is. i < n3 \<Longrightarrow>
   shape3 (fold (\<lambda>i. fold (\<lambda>plugnum.
                    fold (\<lambda>port pb. upd3 pb plugnum port i (g i plugnum port)) [0..<n2])
                  [0..<n1]) is a) n1 n2 n3 \<and>
   (p' < n1 \<longrightarrow> q' < n2 \<longrightarrow>
      fold (\<lambda>i. fold (\<lambda>plugnum.
                    fold (\<lambda>port pb. upd3 pb plugnum port i (g i plugnum port)) [0..<n2])
                  [0..<n1]) is a ! p' ! q' ! i'
      = (if i' \<in> set is then g i' p' q' else a ! p' ! q' ! i'))"
proof (induction "is" arbitrary: a)
  case Nil
  then show ?case by simp
next
  case (Cons x xs)
  let ?a = "fold (\<lambda>plugnum. fold (\<lambda>port pb. upd3 pb plugnum port x (g x plugnum port)) [0..<n2])
              [0..<n1] a"
  have inner: "shape3 ?a n1 n2 n3 \<and>
      (q' < n2 \<longrightarrow> ?a ! p' ! q' ! i'
         = (if p' \<in> set [0..<n1] \<and> i' = x then g x p' q' else a ! p' ! q' ! i'))"
    using mix_plugin_loop[of a n1 n2 n3 x "[0..<n1]" "g x" q' p' i'] Cons.prems by simp
  show ?case
    using Cons.IH[of ?a] inner Cons.prems by auto
qed

lemma mix_shape:
  assumes "shape3 pluginbuffers numplugins numin blocksize" "framesread \<le> blocksize"
  shows "shape3 (mix buffer framesread numchannels numplugins numin connections blocksize
                   pluginbuffers) numplugins numin blocksize"
  using mix_frame_loop[of pluginbuffers numplugins numin blocksize "[0..<framesread]"
      "\<lambda>i plugnum port. mix_cell buffer numchannels i (connections ! plugnum ! port)"] assms
  by (simp add: mix_def)

lemma mix_nth:
  assumes "shape3 pluginbuffers numplugins numin blocksize" "framesread \<le> blocksize"
    "p < numplugins" "q < numin" "i < framesread"
  shows "mix buffer framesread numchannels numplugins numin connections blocksize pluginbuffers
           ! p ! q ! i
         = mix_cell buffer numchannels i (connections ! p ! q)"
  using mix_frame_loop[of pluginbuffers numplugins numin blocksize "[0..<framesread]"
      "\<lambda>i plugnum port. mix_cell buffer numchannels i (connections ! plugnum ! port)" p q i] assms
  by (simp add: mix_def)

text \<open>The channel loop counts the connected channels and adds their samples.\<close>

lemma mix_channel_loop:
  "fold (\<lambda>channel (nummixed, cell).
           if conn ! channel then (nummixed + 1, cell + f channel) else (nummixed, cell))
        chs (n, s)
   = (n + length (filter (\<lambda>ch. conn ! ch) chs),
      s + sum_list (map f (filter (\<lambda>ch. conn ! ch) chs)))"
  by (induction chs arbitrary: n s) (auto simp: add.assoc)

lemma mix_cell_mean:
  "mix_cell buffer numchannels i conn =
    (if {ch. ch < numchannels \<and> conn ! ch} = {} then 0
     else (\<Sum>ch\<in>{ch. ch < numchannels \<and> conn ! ch}. buffer ! (i * numchannels + ch))
          / real (card {ch. ch < numchannels \<and> conn ! ch}))"
proof -
  let ?fl = "filter (\<lambda>ch. conn ! ch) [0..<numchannels]"
  let ?S = "{ch. ch < numchannels \<and> conn ! ch}"
  have set: "set ?fl = ?S" by auto
  have d: "distinct ?fl" by simp
  have len: "length ?fl = card ?S"
    using distinct_card[OF d] set by simp
  have sm: "sum_list (map (\<lambda>ch. buffer ! (i * numchannels + ch)) ?fl)
            = (\<Sum>ch\<in>?S. buffer ! (i * numchannels + ch))"
    using sum_list_distinct_conv_sum_set[OF d, of "\<lambda>ch. buffer ! (i * numchannels + ch)"] set
    by simp
  have e: "?fl = [] \<longleftrightarrow> ?S = {}"
    using set by (metis set_empty)
  show ?thesis
    unfolding mix_cell_def mix_channel_loop[where f="\<lambda>ch. buffer ! (i * numchannels + ch)"]
    using len sm e by (auto simp del: upt_eq_Nil_conv)
qed

subsection \<open>The calls made by the block loop\<close>

lemma run_instances_fold:
  "snd (fold (\<lambda>plugnum (st, calls).
             case run (st_instances st ! plugnum) blocksize (st_pluginbuffers st ! plugnum)
                      controlports (st_outputbuffers st ! plugnum) of
               (inst, out) \<Rightarrow>
                 (st\<lparr>st_instances := (st_instances st)[plugnum := inst],
                     st_outputbuffers := (st_outputbuffers st)[plugnum := out]\<rparr>,
                  calls @ [(plugnum, blocksize)])) ps (st0, calls0))
     = calls0 @ map (\<lambda>p. (p, blocksize)) ps
   \<and> st_blocks (fst (fold (\<lambda>plugnum (st, calls).
             case run (st_instances st ! plugnum) blocksize (st_pluginbuffers st ! plugnum)
                      controlports (st_outputbuffers st ! plugnum) of
               (inst, out) \<Rightarrow>
                 (st\<lparr>st_instances := (st_instances st)[plugnum := inst],
                     st_outputbuffers := (st_outputbuffers st)[plugnum := out]\<rparr>,
                  calls @ [(plugnum, blocksize)])) ps (st0, calls0))) = st_blocks st0"
  by (induction ps arbitrary: st0 calls0) (auto split: prod.splits)

lemma run_instances_calls:
  "run_instances run numplugins blocksize controlports st0 = (st1, calls)
   \<Longrightarrow> calls = map (\<lambda>p. (p, blocksize)) [0..<numplugins] \<and> st_blocks st1 = st_blocks st0"
  unfolding run_instances_def
  using run_instances_fold[where run=run and blocksize=blocksize and controlports=controlports
      and ps="[0..<numplugins]" and ?st0.0=st0 and ?calls0.0="[]"]
  by simp

text \<open>Every iteration logs its frame count and the calls it made.\<close>

lemma process_loop_blocks:
  "(n, calls) \<in> set (st_blocks (process_loop check run blocksize numchannels numin numout numplugins
        connections controlports insndfile st)) \<Longrightarrow>
   (n, calls) \<in> set (st_blocks st) \<or>
   (calls = map (\<lambda>p. (p, blocksize)) [0..<numplugins] \<and> 0 < n \<and> n \<le> blocksize)"
proof (induction check run blocksize numchannels numin numout numplugins
        connections controlports insndfile st rule: process_loop.induct)
  case (1 check run blocksize numchannels numin numout numplugins connections controlports insndfile st)
  obtain numread buf rest where r: "sf_readf_float insndfile numchannels (st_buffer st) blocksize = (numread, buf, rest)"
    by (cases "sf_readf_float insndfile numchannels (st_buffer st) blocksize") auto
  show ?case
  proof (cases "numread = 0")
    case True
    with r "1.prems" show ?thesis by (simp add: process_loop.simps[of _ _ _ _ _ _ _ _ _ insndfile])
  next
    case False
    have le: "numread \<le> blocksize" using r by (auto simp: sf_readf_float_def Let_def)
    obtain st1 cs where ri: "run_instances run numplugins blocksize controlports
                    (st\<lparr>st_buffer := buf,
                        st_pluginbuffers := mix buf numread numchannels numplugins numin connections
                                              blocksize (st_pluginbuffers st)\<rparr>) = (st1, cs)"
      by force
    obtain c sb warn where cc: "(if check
                        then check_clipped (st_clipped st1) numread numout
                               (interleaveoutput numread numplugins numout blocksize
                                  (st_outputbuffers st1) (st_sndfilebuffer st1))
                        else (st_clipped st1,
                              interleaveoutput numread numplugins numout blocksize
                                (st_outputbuffers st1) (st_sndfilebuffer st1),
                              False)) = (c, sb, warn)"
      using prod_cases3 by blast
    note rc = run_instances_calls[OF ri]
    have eq: "process_loop check run blocksize numchannels numin numout numplugins
        connections controlports insndfile st = process_loop check run blocksize numchannels numin numout numplugins
                        connections controlports rest
                        (st1\<lparr>st_sndfilebuffer := sb,
                             st_clipped := c,
                             st_warnings := st_warnings st1 + (if warn then 1 else 0),
                             st_outsndfile := st_outsndfile st1 @ take (numread * st_outchannels st1) sb,
                             st_blocks := st_blocks st1 @ [(numread, cs)]\<rparr>)"
      using r False ri cc by (subst process_loop.simps) (simp del: process_loop.simps)
    from "1.IH"[OF r[symmetric] refl False ri[symmetric] cc[symmetric] refl]
      "1.prems"[unfolded eq]
    show ?thesis using rc le False by auto
  qed
qed

subsection \<open>The shape of the connection matrix and the classes of the ports\<close>

lemma for_each_invariant:
  assumes "for_each f xs s = Inr s'" and "P s"
    and "\<And>x a b. x \<in> set xs \<Longrightarrow> f x a = Inr b \<Longrightarrow> P a \<Longrightarrow> P b"
  shows "P s'"
  using assms
proof (induction xs arbitrary: s)
  case Nil
  then show ?case by simp
next
  case (Cons x xs)
  from Cons.prems(1) obtain s1 where s1: "f x s = Inr s1" and r: "for_each f xs s1 = Inr s'"
    by (auto split: sum.splits)
  have "P s1" using Cons.prems(3)[OF _ s1 Cons.prems(2)] by simp
  then show ?case
    by (rule Cons.IH[OF r]) (use Cons.prems(3) in auto)
qed

lemma shape3_replicate:
  "shape3 (replicate n1 (replicate n2 (replicate n3 v))) n1 n2 n3"
  by (simp add: shape3_def list_all_length)

lemma set_connection_shape:
  "set_connection c p port ch = Inr c' \<Longrightarrow> shape3 c n1 n2 n3 \<Longrightarrow> shape3 c' n1 n2 n3"
  by (auto simp: set_connection_def upd3_shape split: if_splits)

lemma connect_entry_shape:
  assumes "connect_entry ports inidx numchannels cl cw = Inr cw'" "shape3 (fst cw) n1 n2 n3"
  shows "shape3 (fst cw') n1 n2 n3"
  using assms
  by (auto simp: connect_entry_def Let_def set_connection_shape
           split: prod.splits if_splits option.splits sum.splits)

lemma set_connections_shape:
  "for_each (\<lambda>i c. set_connection c (g i) (h i) (k i)) xs c = Inr c' \<Longrightarrow> shape3 c n1 n2 n3
   \<Longrightarrow> shape3 c' n1 n2 n3"
  by (rule for_each_invariant[where P="\<lambda>a. shape3 a n1 n2 n3"])
     (auto elim: set_connection_shape)

lemma default_connections_shape:
  assumes "default_connections numin numchannels mixdown c = Inr c'" "shape3 c n1 n2 n3"
  shows "shape3 c' n1 n2 n3"
proof -
  consider (a) "for_each (\<lambda>i c. set_connection c 0 i i) [0..<numin] c = Inr c'"
    | (b) "for_each (\<lambda>i c. set_connection c 0 0 i) [0..<numin] c = Inr c'"
    | (c) "for_each (\<lambda>i c. set_connection c (int i) 0 i) [0..<numchannels] c = Inr c'"
    using assms(1) unfolding default_connections_def by (auto split: if_splits)
  then show ?thesis
  proof cases
    case a
    then show ?thesis
      using set_connections_shape[where g="\<lambda>i. 0" and h="\<lambda>i. i" and k="\<lambda>i. i"] assms(2) by blast
  next
    case b
    then show ?thesis
      using set_connections_shape[where g="\<lambda>i. 0" and h="\<lambda>i. 0" and k="\<lambda>i. i"] assms(2) by blast
  next
    case c
    then show ?thesis
      using set_connections_shape[where g="\<lambda>i. int i" and h="\<lambda>i. 0" and k="\<lambda>i. i"] assms(2) by blast
  qed
qed

lemma build_connections_shape:
  assumes "build_connections ports inidx numchannels mixdown connectargs = Inr (numplugins, connections, warnings)"
  shows "shape3 connections numplugins (length inidx) numchannels"
proof (cases "connectargs = []")
  case True
  with assms show ?thesis
    by (auto simp: build_connections_def Let_def split: sum.splits
             dest!: default_connections_shape[OF _ shape3_replicate])
next
  case False
  let ?c0 = "replicate numplugins (replicate (length inidx) (replicate numchannels False))"
  from assms False have r: "for_each (\<lambda>connectionlist.
                                     for_each (connect_entry ports inidx numchannels)
                                       (entry_starts connectionlist))
                           connectargs (?c0, []) = Inr (connections, warnings)"
    by (auto simp: build_connections_def Let_def split: sum.splits)
  have inner: "shape3 (fst b) numplugins (length inidx) numchannels"
    if "for_each (connect_entry ports inidx numchannels) xs a = Inr b"
      "shape3 (fst a) numplugins (length inidx) numchannels" for xs a b
    using for_each_invariant[where P="\<lambda>a. shape3 (fst a) numplugins (length inidx) numchannels", OF that]
      connect_entry_shape by blast
  have "shape3 (fst (connections, warnings)) numplugins (length inidx) numchannels"
    using for_each_invariant[where P="\<lambda>a. shape3 (fst a) numplugins (length inidx) numchannels", OF r]
      inner shape3_replicate by (metis fst_conv)
  then show ?thesis by simp
qed

lemma classify_fold:
  "inindices (fold (classify_port ports) is cl)
     = inindices cl @ filter (\<lambda>i. p_audio (ports ! i) \<and> p_input (ports ! i)) is
   \<and> outindices (fold (classify_port ports) is cl)
     = outindices cl @ filter (\<lambda>i. p_audio (ports ! i) \<and> \<not> p_input (ports ! i) \<and> p_output (ports ! i)) is
   \<and> controlindices (fold (classify_port ports) is cl)
     = controlindices cl @ filter (\<lambda>i. \<not> p_audio (ports ! i) \<and> p_control (ports ! i) \<and> p_input (ports ! i)) is
   \<and> controloutindices (fold (classify_port ports) is cl)
     = controloutindices cl @ filter (\<lambda>i. \<not> p_audio (ports ! i) \<and> p_control (ports ! i) \<and> \<not> p_input (ports ! i) \<and> p_output (ports ! i)) is"
  by (induction "is" arbitrary: cl) (auto simp: classify_port_def Let_def)

lemma classify_indices:
  "inindices (classify ports) = filter (\<lambda>i. p_audio (ports ! i) \<and> p_input (ports ! i)) [0..<length ports]"
  "outindices (classify ports) = filter (\<lambda>i. p_audio (ports ! i) \<and> \<not> p_input (ports ! i) \<and> p_output (ports ! i)) [0..<length ports]"
  "controlindices (classify ports) = filter (\<lambda>i. \<not> p_audio (ports ! i) \<and> p_control (ports ! i) \<and> p_input (ports ! i)) [0..<length ports]"
  "controloutindices (classify ports) = filter (\<lambda>i. \<not> p_audio (ports ! i) \<and> p_control (ports ! i) \<and> \<not> p_input (ports ! i) \<and> p_output (ports ! i)) [0..<length ports]"
  unfolding classify_def using classify_fold[of ports "[0..<length ports]"] by simp_all

subsection \<open>The loop over the parameter entries\<close>

lemma for_each_append:
  "for_each f (as @ bs) s = (case for_each f as s of Inl e \<Rightarrow> Inl e | Inr s' \<Rightarrow> for_each f bs s')"
  by (induction as arbitrary: s) (auto split: sum.splits)

lemma for_each_concat:
  "for_each (\<lambda>x. for_each f (g x)) xs s = for_each f (concat (map g xs)) s"
  by (induction xs arbitrary: s) (auto simp: for_each_append split: sum.splits)

lemma find_append:
  "List.find P (xs @ ys) = (case List.find P xs of None \<Rightarrow> List.find P ys | Some x \<Rightarrow> Some x)"
  by (induction xs) auto

lemma set_parameters_entries:
  "set_parameters strtof ports ctlidx controls cw
   = for_each (set_parameter strtof ports ctlidx) (parameter_entries controls) cw"
  by (simp add: set_parameters_def parameter_entries_def for_each_concat)

lemma set_parameter_cases:
  "set_parameter strtof ports ctlidx t (cp, w) =
     (if \<not> entry_wellformed t then Inl ParameterSyntax
      else case find_port ports ctlidx (entry_name t) of
             None \<Rightarrow> Inr (cp, w @ [entry_name t])
           | Some port \<Rightarrow> Inr (cp[port := strtof (entry_value t)], w))"
  by (auto simp: set_parameter_def entry_wellformed_def entry_name_def entry_value_def
        strchr_def Let_def split: option.splits)

lemma set_parameter_loop_fails:
  "\<exists>t\<in>set ts. \<not> entry_wellformed t \<Longrightarrow>
   for_each (set_parameter strtof ports ctlidx) ts cw = Inl ParameterSyntax"
proof (induction ts arbitrary: cw)
  case Nil
  then show ?case by simp
next
  case (Cons t ts)
  obtain cp w where cw: "cw = (cp, w)" by (cases cw)
  show ?case
  proof (cases "entry_wellformed t")
    case False
    then show ?thesis by (simp add: cw set_parameter_cases)
  next
    case True
    with Cons.prems have "\<exists>t\<in>set ts. \<not> entry_wellformed t" by auto
    from Cons.IH[OF this] True show ?thesis
      by (simp add: cw set_parameter_cases split: option.splits)
  qed
qed

lemma set_parameter_loop_result:
  "for_each (set_parameter strtof ports ctlidx) ts (cp, w) = Inr (cp', w') \<Longrightarrow>
   length cp' = length cp
   \<and> (\<forall>k<length cp. cp' ! k = (case last_override ports ctlidx ts k of
                                  None \<Rightarrow> cp ! k
                                | Some t \<Rightarrow> strtof (entry_value t)))
   \<and> w' = w @ map entry_name (filter (\<lambda>t. find_port ports ctlidx (entry_name t) = None) ts)"
proof (induction ts arbitrary: cp w)
  case Nil
  then show ?case by (simp add: last_override_def)
next
  case (Cons t ts)
  from Cons.prems have wf: "entry_wellformed t"
    by (auto simp: set_parameter_cases split: if_splits)
  show ?case
  proof (cases "find_port ports ctlidx (entry_name t)")
    case None
    with Cons.prems wf have r: "for_each (set_parameter strtof ports ctlidx) ts (cp, w @ [entry_name t]) = Inr (cp', w')"
      by (simp add: set_parameter_cases)
    have lo: "last_override ports ctlidx (t # ts) k = last_override ports ctlidx ts k" for k
      using None by (simp add: last_override_def find_append split: option.splits)
    from Cons.IH[OF r] None show ?thesis by (simp add: lo)
  next
    case (Some port)
    with Cons.prems wf have r: "for_each (set_parameter strtof ports ctlidx) ts (cp[port := strtof (entry_value t)], w) = Inr (cp', w')"
      by (simp add: set_parameter_cases)
    have lo: "last_override ports ctlidx (t # ts) k =
        (case last_override ports ctlidx ts k of None \<Rightarrow> (if port = k then Some t else None) | Some t' \<Rightarrow> Some t')" for k
      using Some by (auto simp: last_override_def find_append split: option.splits)
    from Cons.IH[OF r] Some show ?thesis
      by (auto simp: lo nth_list_update split: option.splits)
  qed
qed

lemma main_core_Inr:
  "main_core cfg = Inr res \<Longrightarrow>
   \<exists>numplugins connections cwarnings instances controlports0.
     main_setup cfg = Inr (numplugins, connections, cwarnings, instances, controlports0)
     \<and> set_parameters (cf_strtof cfg) (cf_ports cfg) (controlindices (classify (cf_ports cfg)))
          (cf_controls cfg) (controlports0, []) = Inr (r_controlports res, r_parameter_warnings res)"
  by (auto simp: main_core_def Let_def split: sum.splits prod.splits)

lemma main_setup_controls:
  "main_setup cfg = Inr (numplugins, connections, cwarnings, instances, controlports0) \<Longrightarrow>
   length controlports0 = length (controlindices (classify (cf_ports cfg)))
   \<and> (0 \<le> fwheelportidx (classify (cf_ports cfg)) \<longrightarrow>
        nat (fwheelportidx (classify (cf_ports cfg))) < length controlports0
        \<and> controlports0 ! nat (fwheelportidx (classify (cf_ports cfg))) = 1)"
  by (auto simp: main_setup_def starting_controls_def Let_def split: sum.splits prod.splits if_splits)

text \<open>
  The index that the classification stores for the freewheel port is its port index, and
  \<^verbatim>\<open>controlports\<close> is indexed by control ordinal: with the audio input first, the 1 lands on
  \<open>gain\<close> and \<open>fw\<close> keeps its default 0.
\<close>

lemma freewheel_index_is_port_index:
  "starting_controls (classify fw_plugin_audio_first) (map p_default fw_plugin_audio_first)
     (map p_min fw_plugin_audio_first) (map p_max fw_plugin_audio_first) = Inr [0, 1]"
  by code_simp

subsection \<open>The properties\<close>

text \<open>
  C1. With one audio input port, \<^verbatim>\<open>--mono\<close> and no \<^verbatim>\<open>--connect\<close> argument the single input
  port should be connected to every file channel. The code connects it to channel 0 only, its
  loop \<^verbatim>\<open>for (i = 0; i < numin; i++) connections[0][0][i] = true\<close> being bounded by \<^verbatim>\<open>numin\<close>,
  which is 1: with 4 file channels the matrix is \<open>[[[True, False, False, False]]]\<close>, and the
  frame \<open>1, 2, 3, 4\<close> is mixed to 1, the sample of channel 0, not to the mean 2.5.
\<close>

theorem mixdown_connects_first_channel_only:
  "build_connections [audio_in ''in'', audio_out ''out'']
     (inindices (classify [audio_in ''in'', audio_out ''out''])) 4 True []
   = Inr (1, [[[True, False, False, False]]], [])
   \<and> mix [1, 2, 3, 4] 1 4 1 1 [[[True, False, False, False]]] 1 [[[0]]] = [[[1]]]"
  by code_simp

text \<open>
  C2. With clip checking enabled every written sample should lie in \<open>[-1, 1]\<close>, in the first
  clipping block and in every later block. The code does not do that: on a one-channel file
  with the two frames 1 and 1, a block size of 1 and a plugin whose output is 1.5 times its
  input, the first block is clamped to 1 and the warning is printed once, but the second block
  is written as 1.5, because \<^verbatim>\<open>!clipped &&\<close> skips \<^verbatim>\<open>clipOutput\<close> once the flag is set.
\<close>

theorem clip_later_block_unclamped:
  "st_outsndfile (process True amp_run 1 1 1 1 1 [[[True]]] [] [1, 1] (init_state [()] 1 1 1 1))
     = [1, 3 / 2]
   \<and> st_warnings (process True amp_run 1 1 1 1 1 [[[True]]] [] [1, 1] (init_state [()] 1 1 1 1))
     = 1"
  by code_simp

text \<open>
  C3, as stated, fails. With a block size of 2 and a one-channel file of 3 frames the second
  iteration reads \<open>n = 1\<close> frame, and the instance is run over 2 samples in it: the code passes
  \<^verbatim>\<open>blocksize\<close>, not \<^verbatim>\<open>numread\<close>, to \<^verbatim>\<open>lilv_instance_run\<close>.
\<close>

theorem run_sample_count_counterexample:
  "st_blocks (process True amp_run 2 1 1 1 1 [[[True]]] [] [1, 0, 1] (init_state [()] 1 1 1 2))
   = [(2, [(0, 2)]), (1, [(0, 2)])]
   \<and> \<not> list_all (\<lambda>(n, calls). calls = map (\<lambda>p. (p, n)) [0..<1])
         (st_blocks (process True amp_run 2 1 1 1 1 [[[True]]] [] [1, 0, 1]
                       (init_state [()] 1 1 1 2)))"
  by code_simp

text \<open>
  C3, amended. On every iteration of the block loop, each plugin instance is invoked in index
  order for one processing pass over exactly \<open>blocksize\<close> frames, the configured block size,
  also when the number \<open>n\<close> of frames read for that block is smaller (\<open>0 < n \<le> blocksize\<close>).
\<close>

theorem run_sample_count_blocksize:
  assumes "(n, calls) \<in> set (st_blocks (process check run blocksize numchannels numin numout
                                          numplugins connections controlports insndfile st))"
    and "st_blocks st = []"
  shows "calls = map (\<lambda>p. (p, blocksize)) [0..<numplugins] \<and> 0 < n \<and> n \<le> blocksize"
  using process_loop_blocks[OF assms(1)[unfolded process_def]] assms(2) by simp

theorem run_sample_count_blocksize_witness:
  "(1, [(0, 2)]) \<in> set (st_blocks (process True amp_run 2 1 1 1 1 [[[True]]] [] [1, 0, 1]
                                     (init_state [()] 1 1 1 2)))
   \<and> st_blocks (init_state [()] 1 1 1 2 :: unit process_state) = []
   \<and> [(0, 2)] = map (\<lambda>p. (p, 2)) [0..<(1::nat)] \<and> (0::nat) < 1 \<and> (1::nat) \<le> 2"
proof -
  have m: "(1, [(0, 2)]) \<in> set (st_blocks (process True amp_run 2 1 1 1 1 [[[True]]] [] [1, 0, 1]
                                             (init_state [()] 1 1 1 2)))"
    by code_simp
  have e: "st_blocks (init_state [()] 1 1 1 2 :: unit process_state) = []"
    by (simp add: init_state_def)
  show ?thesis
    using run_sample_count_blocksize[OF m e] m e by simp
qed

text \<open>
  C4, as stated, fails. The freewheel port \<open>fw\<close> of \<open>fw_plugin\<close> is forced to 1 before the
  \<^verbatim>\<open>--parameters\<close> arguments are read, and \<^verbatim>\<open>--parameters fw:0\<close> then sets it to 0: the
  instances read 0.
\<close>

theorem freewheel_override_counterexample:
  "p_freewheel (cf_ports (fw_config [''fw:0'']) ! 0)
   \<and> controlindices (classify (cf_ports (fw_config [''fw:0'']))) = [0, 1]
   \<and> map_sum id r_controlports (main_core (fw_config [''fw:0''])) = Inr [0, 1 / 2]
   \<and> map_sum id (\<lambda>r. r_controlports r ! 0) (main_core (fw_config [''fw:0''])) \<noteq> Inr 1"
  by code_simp

text \<open>
  C4, amended. If the plugin declares a freewheel-flagged control input port whose control
  ordinal is its port index \<open>f\<close>, then in every run that reaches the block loop, whatever the
  metadata defaults and the preset, the resolved value of that port is 1 unless a
  \<^verbatim>\<open>--parameters\<close> entry names the port; when entries name it, the value of the last of them
  wins.
\<close>

theorem freewheel_forced_before_overrides:
  assumes "main_core cfg = Inr res"
    and "fwheelportidx (classify (cf_ports cfg)) = int f"
    and "controlindices (classify (cf_ports cfg)) ! f = f"
  shows "f < length (r_controlports res)
         \<and> r_controlports res ! f =
             (case last_override (cf_ports cfg) (controlindices (classify (cf_ports cfg)))
                     (parameter_entries (cf_controls cfg)) f of
                None \<Rightarrow> 1
              | Some t \<Rightarrow> cf_strtof cfg (entry_value t))"
proof -
  from main_core_Inr[OF assms(1)] obtain numplugins connections cwarnings instances controlports0
    where s: "main_setup cfg = Inr (numplugins, connections, cwarnings, instances, controlports0)"
      and p: "set_parameters (cf_strtof cfg) (cf_ports cfg) (controlindices (classify (cf_ports cfg)))
          (cf_controls cfg) (controlports0, []) = Inr (r_controlports res, r_parameter_warnings res)"
    by blast
  from main_setup_controls[OF s] assms(2)
  have f: "f < length controlports0" "controlports0 ! f = 1" by auto
  from set_parameter_loop_result[OF p[unfolded set_parameters_entries]] f
  show ?thesis by (auto split: option.splits)
qed

theorem freewheel_forced_before_overrides_witness:
  "map_sum id (\<lambda>r. r_controlports r ! 0) (main_core (fw_config [''gain:3,x:1''])) = Inr 1
   \<and> fwheelportidx (classify (cf_ports (fw_config [''gain:3,x:1'']))) = int 0
   \<and> controlindices (classify (cf_ports (fw_config [''gain:3,x:1'']))) ! 0 = 0"
proof -
  let ?cfg = "fw_config [''gain:3,x:1'']"
  have "\<not> isl (main_core ?cfg)" by code_simp
  then obtain res where res: "main_core ?cfg = Inr res"
    by (cases "main_core ?cfg") auto
  have fw: "fwheelportidx (classify (cf_ports ?cfg)) = int 0" by code_simp
  have ord: "controlindices (classify (cf_ports ?cfg)) ! 0 = 0" by code_simp
  have lo: "last_override (cf_ports ?cfg) (controlindices (classify (cf_ports ?cfg)))
              (parameter_entries (cf_controls ?cfg)) 0 = None"
    by code_simp
  from freewheel_forced_before_overrides[OF res fw ord] lo
  have "r_controlports res ! 0 = 1" by simp
  with res fw ord show ?thesis by simp
qed

text \<open>
  C5. The interleaved output should hold sample \<open>i\<close> of output port \<open>q\<close> of instance \<open>p\<close> at
  position \<open>i * (numplugins * numout) + p * numout + q\<close>. The code stores it at
  \<open>p * numout * blocksize + i * numout + q\<close>: with two instances of one output port, a block
  of two frames and the outputs \<open>[1, 2]\<close> and \<open>[3, 4]\<close> the buffer is \<open>[1, 2, 3, 4]\<close>, not the
  frame-interleaved \<open>[1, 3, 2, 4]\<close>; the output file has \<open>numout = 1\<close> channel, and the two
  frames written to it are the first two samples, both of instance 0. A whole run on a
  two-channel file (samples 1/2 on channel 0, 1/4 on channel 1) with one instance per channel
  writes a one-channel file with the output of instance 0 only.
\<close>

theorem interleaveoutput_instance_major:
  "interleaveoutput 2 2 1 2 [[[1, 2]], [[3, 4]]] [0, 0, 0, 0] = [1, 2, 3, 4]
   \<and> st_outchannels (init_state [(), ()] 2 1 1 2) = 1
   \<and> take (2 * st_outchannels (init_state [(), ()] 2 1 1 2))
        (interleaveoutput 2 2 1 2 [[[1, 2]], [[3, 4]]] [0, 0, 0, 0]) = [1, 2]
   \<and> map_sum id (\<lambda>r. (r_numplugins r, st_outchannels (r_state r), st_outsndfile (r_state r)))
        (main_core stereo_config)
     = Inr (2, 1, [3 / 4, 3 / 4, 3 / 4])"
  by code_simp

text \<open>
  C6. An entry \<open>fileChannel:instanceIndex.portSymbol\<close> whose symbol is that of an audio input
  port should set the cell of that instance, port and channel. The code sets nothing: for
  \<^verbatim>\<open>--connect 1:1.in\<close> on a one-channel file and a plugin whose audio input has the symbol
  \<open>in\<close>, the second loop overwrites the period with 0 and compares the port symbols with the
  empty string that \<^verbatim>\<open>nextperiod\<close> then points to, so no port matches, the matrix stays all
  false, and the warning names the port \<open>1\<close>.
\<close>

theorem connect_with_instance_sets_nothing:
  "build_connections [audio_in ''in'', audio_out ''out'']
     (inindices (classify [audio_in ''in'', audio_out ''out''])) 1 False [''1:1.in'']
   = Inr (1, [[[False]]], [''1''])"
  by code_simp

text \<open>
  C7. After \<open>mix\<close> has run on a block of \<open>framesread\<close> frames (at most \<open>blocksize\<close>), for
  every instance \<open>p\<close>, every plugin input port \<open>q\<close> and every sample position
  \<open>i < framesread\<close>, the mixed planar input sample is the sum, over the file channels \<open>ch\<close>
  with \<open>connections[p][q][ch]\<close> set, of the interleaved input sample of frame \<open>i\<close> and channel
  \<open>ch\<close>, divided by the number of these channels; it is 0 when no channel is connected.
\<close>

theorem mix_mean:
  assumes "shape3 pluginbuffers numplugins numin blocksize"
    and "framesread \<le> blocksize"
    and "p < numplugins" and "q < numin" and "i < framesread"
  shows "mix buffer framesread numchannels numplugins numin connections blocksize pluginbuffers
           ! p ! q ! i
         = (if {ch. ch < numchannels \<and> connections ! p ! q ! ch} = {} then 0
            else (\<Sum>ch\<in>{ch. ch < numchannels \<and> connections ! p ! q ! ch}.
                    buffer ! (i * numchannels + ch))
                 / real (card {ch. ch < numchannels \<and> connections ! p ! q ! ch}))"
  using mix_nth[OF assms] mix_cell_mean by simp

theorem mix_mean_witness:
  "shape3 [[[0, 0]], [[0, 0 :: real]]] 2 1 2 \<and> (2::nat) \<le> 2 \<and> (1::nat) < 2 \<and> (0::nat) < 1
   \<and> (1::nat) < 2
   \<and> mix [1, 3, 5, 7] 2 2 2 1 [[[True, True]], [[False, False]]] 2 [[[0, 0]], [[0, 0]]] ! 0 ! 0 ! 1 = 6
   \<and> mix [1, 3, 5, 7] 2 2 2 1 [[[True, True]], [[False, False]]] 2 [[[0, 0]], [[0, 0]]] ! 1 ! 0 ! 1 = 0"
proof -
  have s: "shape3 [[[0, 0]], [[0, 0 :: real]]] 2 1 2"
    by (simp add: shape3_def)
  have all: "{ch. ch < (2::nat) \<and> [True, True] ! ch} = {0, 1}"
    by (auto simp: less_Suc_eq numeral_2_eq_2)
  have none: "{ch. ch < (2::nat) \<and> [False, False] ! ch} = {}"
  proof -
    have "\<not> [False, False] ! ch" if "ch < 2" for ch :: nat
      using less_2_cases[OF that] by auto
    then show ?thesis by auto
  qed
  have a: "mix [1, 3, 5, 7] 2 2 2 1 [[[True, True]], [[False, False]]] 2 [[[0, 0]], [[0, 0]]]
             ! 0 ! 0 ! 1 = 6"
    using mix_mean[OF s, of 2 0 0 1 "[1, 3, 5, 7]" 2 "[[[True, True]], [[False, False]]]"] all
    by simp
  have b: "mix [1, 3, 5, 7] 2 2 2 1 [[[True, True]], [[False, False]]] 2 [[[0, 0]], [[0, 0]]]
             ! 1 ! 0 ! 1 = 0"
    using mix_mean[OF s, of 2 1 0 1 "[1, 3, 5, 7]" 2 "[[[True, True]], [[False, False]]]"] none
    by simp
  show ?thesis using s a b by simp
qed

text \<open>
  C8. \<open>getstartingvalue\<close> returns the default when it is defined; 0 when default, minimum
  and maximum are all NaN; \<open>min(max, 0)\<close> when only the maximum is defined; \<open>max(min, 0)\<close>
  when only the minimum is defined; the midpoint \<open>(min + max) / 2\<close> when both bounds are
  defined and the default is not. In particular (NaN,NaN,5) gives 0, (NaN,NaN,-3) gives -3,
  (NaN,2,NaN) gives 2, (NaN,-5,NaN) gives 0, (NaN,1,5) gives 3 and (2.5,*,*) gives 2.5.
\<close>

theorem getstartingvalue_cases:
  "getstartingvalue (Some d) mn' mx' = d
   \<and> getstartingvalue None None None = 0
   \<and> getstartingvalue None None (Some mx) = min mx 0
   \<and> getstartingvalue None (Some mn) None = max mn 0
   \<and> getstartingvalue None (Some mn) (Some mx) = (mn + mx) / 2
   \<and> getstartingvalue None None (Some 5) = 0
   \<and> getstartingvalue None None (Some (- 3)) = - 3
   \<and> getstartingvalue None (Some 2) None = 2
   \<and> getstartingvalue None (Some (- 5)) None = 0
   \<and> getstartingvalue None (Some 1) (Some 5) = 3
   \<and> getstartingvalue (Some 2.5) mn' mx' = 2.5"
  by (simp add: getstartingvalue_def)

text \<open>
  C9. In every connection matrix that the builder produces, from \<^verbatim>\<open>--connect\<close> arguments or
  from the default rules, a cell \<open>connections[p][port][ch]\<close> that is true has \<open>port\<close> below the
  number of audio input ports and \<open>ch\<close> below the number of file channels (and \<open>p\<close> below
  the number of instances); the port with that ordinal is an audio port and an input, and it
  is neither among the control inputs nor among the audio outputs.
\<close>

theorem connections_true_cells:
  assumes "build_connections ports (inindices (classify ports)) numchannels mixdown connectargs
             = Inr (numplugins, connections, warnings)"
    and "p < length connections" and "port < length (connections ! p)"
    and "ch < length (connections ! p ! port)"
    and "connections ! p ! port ! ch"
  shows "p < numplugins \<and> port < length (inindices (classify ports)) \<and> ch < numchannels
         \<and> inindices (classify ports) ! port < length ports
         \<and> p_audio (ports ! (inindices (classify ports) ! port))
         \<and> p_input (ports ! (inindices (classify ports) ! port))
         \<and> inindices (classify ports) ! port \<notin> set (controlindices (classify ports))
         \<and> inindices (classify ports) ! port \<notin> set (outindices (classify ports))"
proof -
  let ?in = "inindices (classify ports)"
  have sh: "shape3 connections numplugins (length ?in) numchannels"
    using assms(1) by (rule build_connections_shape)
  then have b: "p < numplugins" "port < length ?in" "ch < numchannels"
    using assms(2-4) by (auto simp: shape3_nth)
  then have "?in ! port \<in> set ?in" by simp
  then have "?in ! port < length ports \<and> p_audio (ports ! (?in ! port)) \<and> p_input (ports ! (?in ! port))"
    unfolding classify_indices(1) by auto
  then show ?thesis using b by (auto simp: classify_indices)
qed

theorem connections_true_cells_witness:
  "build_connections [audio_in ''in'', audio_out ''out'']
     (inindices (classify [audio_in ''in'', audio_out ''out''])) 3 False []
   = Inr (3, [[[True, False, False]], [[False, True, False]], [[False, False, True]]], [])
   \<and> [[[True, False, False]], [[False, True, False]], [[False, False, True]]] ! 1 ! 0 ! 1
   \<and> (1::nat) < 3 \<and> (0::nat) < length (inindices (classify [audio_in ''in'', audio_out ''out'']))
   \<and> p_audio ([audio_in ''in'', audio_out ''out'']
                ! (inindices (classify [audio_in ''in'', audio_out ''out'']) ! 0))
   \<and> p_input ([audio_in ''in'', audio_out ''out'']
                ! (inindices (classify [audio_in ''in'', audio_out ''out'']) ! 0))"
proof -
  let ?P = "[audio_in ''in'', audio_out ''out'']"
  let ?M = "[[[True, False, False]], [[False, True, False]], [[False, False, True]]]"
  have b: "build_connections ?P (inindices (classify ?P)) 3 False [] = Inr (3, ?M, [])"
    by code_simp
  have "(1::nat) < length ?M" "(0::nat) < length (?M ! 1)" "(1::nat) < length (?M ! 1 ! 0)"
    "?M ! 1 ! 0 ! 1"
    by simp_all
  from connections_true_cells[OF b this] b show ?thesis by simp
qed

text \<open>
  C10. Reading the \<^verbatim>\<open>--parameters\<close> arguments is fatal on an entry without its colon: the run
  ends with an error before the block loop is entered (with \<open>ParameterSyntax\<close> when nothing
  failed earlier). In a run that reaches the block loop, an entry whose name is the symbol of
  no control input port only adds a warning, and every control value is the value of the
  last entry that names its port, or, when no entry names it, the value it had before the
  entries were read (from metadata, preset and freewheel): the entries are applied last and
  win.
\<close>

theorem parameter_overrides:
  "((\<exists>t\<in>set (parameter_entries (cf_controls cfg)). \<not> entry_wellformed t)
      \<longrightarrow> (\<exists>e. main_core cfg = Inl e)
          \<and> ((\<exists>x. main_setup cfg = Inr x) \<longrightarrow> main_core cfg = Inl ParameterSyntax))
   \<and> (main_core cfg = Inr res \<longrightarrow>
        (\<exists>numplugins connections cwarnings instances controlports0.
           main_setup cfg = Inr (numplugins, connections, cwarnings, instances, controlports0)
           \<and> length (r_controlports res) = length controlports0
           \<and> (\<forall>k<length controlports0.
                 r_controlports res ! k =
                   (case last_override (cf_ports cfg) (controlindices (classify (cf_ports cfg)))
                           (parameter_entries (cf_controls cfg)) k of
                      None \<Rightarrow> controlports0 ! k
                    | Some t \<Rightarrow> cf_strtof cfg (entry_value t)))
           \<and> r_parameter_warnings res =
               map entry_name
                 (filter (\<lambda>t. find_port (cf_ports cfg) (controlindices (classify (cf_ports cfg)))
                                (entry_name t) = None)
                    (parameter_entries (cf_controls cfg)))))"
proof (intro conjI impI)
  assume bad: "\<exists>t\<in>set (parameter_entries (cf_controls cfg)). \<not> entry_wellformed t"
  have fail: "set_parameters (cf_strtof cfg) (cf_ports cfg) ctl (cf_controls cfg) cw = Inl ParameterSyntax"
    for ctl cw
    unfolding set_parameters_entries using bad by (rule set_parameter_loop_fails)
  show "\<exists>e. main_core cfg = Inl e"
    by (cases "main_setup cfg") (auto simp: main_core_def Let_def fail split: prod.splits)
  assume "\<exists>x. main_setup cfg = Inr x"
  then show "main_core cfg = Inl ParameterSyntax"
    by (auto simp: main_core_def Let_def fail split: prod.splits)
next
  assume ok: "main_core cfg = Inr res"
  from main_core_Inr[OF ok] obtain numplugins connections cwarnings instances controlports0
    where s: "main_setup cfg = Inr (numplugins, connections, cwarnings, instances, controlports0)"
      and p: "set_parameters (cf_strtof cfg) (cf_ports cfg) (controlindices (classify (cf_ports cfg)))
          (cf_controls cfg) (controlports0, []) = Inr (r_controlports res, r_parameter_warnings res)"
    by blast
  from set_parameter_loop_result[OF p[unfolded set_parameters_entries]] s
  show "\<exists>numplugins connections cwarnings instances controlports0.
           main_setup cfg = Inr (numplugins, connections, cwarnings, instances, controlports0)
           \<and> length (r_controlports res) = length controlports0
           \<and> (\<forall>k<length controlports0.
                 r_controlports res ! k =
                   (case last_override (cf_ports cfg) (controlindices (classify (cf_ports cfg)))
                           (parameter_entries (cf_controls cfg)) k of
                      None \<Rightarrow> controlports0 ! k
                    | Some t \<Rightarrow> cf_strtof cfg (entry_value t)))
           \<and> r_parameter_warnings res =
               map entry_name
                 (filter (\<lambda>t. find_port (cf_ports cfg) (controlindices (classify (cf_ports cfg)))
                                (entry_name t) = None)
                    (parameter_entries (cf_controls cfg)))"
    by auto
qed

theorem parameter_overrides_witness:
  "\<not> entry_wellformed ''volume''
   \<and> ''volume'' \<in> set (parameter_entries (cf_controls (fw_config [''gain:3,volume''])))
   \<and> main_core (fw_config [''gain:3,volume'']) = Inl ParameterSyntax
   \<and> map_sum id (\<lambda>r. r_controlports r ! 1) (main_core (fw_config [''gain:3,x:1''])) = Inr 3
   \<and> map_sum id r_parameter_warnings (main_core (fw_config [''gain:3,x:1''])) = Inr [''x'']"
proof -
  let ?bad = "fw_config [''gain:3,volume'']"
  let ?good = "fw_config [''gain:3,x:1'']"
  have nwf: "\<not> entry_wellformed ''volume''" by code_simp
  have mem: "''volume'' \<in> set (parameter_entries (cf_controls ?bad))" by code_simp
  have su: "\<exists>x. main_setup ?bad = Inr x"
  proof -
    have "\<not> isl (main_setup ?bad)" by code_simp
    then show ?thesis by (cases "main_setup ?bad") auto
  qed
  from parameter_overrides[of ?bad] nwf mem su
  have fatal: "main_core ?bad = Inl ParameterSyntax" by blast
  have "\<not> isl (main_core ?good)" by code_simp
  then obtain res where res: "main_core ?good = Inr res"
    by (cases "main_core ?good") auto
  from parameter_overrides[of ?good res] res
  obtain numplugins connections cwarnings instances controlports0 where
    st: "main_setup ?good = Inr (numplugins, connections, cwarnings, instances, controlports0)"
    and vals: "\<forall>k<length controlports0. r_controlports res ! k =
                   (case last_override (cf_ports ?good) (controlindices (classify (cf_ports ?good)))
                           (parameter_entries (cf_controls ?good)) k of
                      None \<Rightarrow> controlports0 ! k
                    | Some t \<Rightarrow> cf_strtof ?good (entry_value t))"
    and warn: "r_parameter_warnings res =
               map entry_name
                 (filter (\<lambda>t. find_port (cf_ports ?good) (controlindices (classify (cf_ports ?good)))
                                (entry_name t) = None)
                    (parameter_entries (cf_controls ?good)))"
    by blast
  have "map_sum id (\<lambda>x. length (snd (snd (snd (snd x))))) (main_setup ?good) = Inr 2" by code_simp
  with st have len: "length controlports0 = 2" by simp
  have lo: "last_override (cf_ports ?good) (controlindices (classify (cf_ports ?good)))
              (parameter_entries (cf_controls ?good)) 1 = Some ''gain:3,x:1''"
    by code_simp
  have v: "cf_strtof ?good (entry_value ''gain:3,x:1'') = 3" by code_simp
  have w: "map entry_name
                 (filter (\<lambda>t. find_port (cf_ports ?good) (controlindices (classify (cf_ports ?good)))
                                (entry_name t) = None)
                    (parameter_entries (cf_controls ?good))) = [''x'']" by code_simp
  from vals len lo v have "r_controlports res ! 1 = 3" by simp
  with res warn w nwf mem fatal show ?thesis by simp
qed

end
